theory Spec2Isabelle
  imports Complex_Main
begin

section \<open>Bundle stock: the API route and the page that shows it\<close>

text \<open>
  Two source files are embedded: \<^verbatim>\<open>src/pages/api/bundles/stock.ts\<close> (the route
  \<^verbatim>\<open>handler\<close>) and the bundle stock page (\<^verbatim>\<open>toggleExpand\<close>, \<^verbatim>\<open>getTableItems\<close>).

  Numbers. The identifiers, inventory levels, quantities and page counts of the catalog
  are integers, and are modelled by \<^typ>\<open>int\<close> and \<^typ>\<open>nat\<close>. JavaScript divides
  doubles: \<^verbatim>\<open>Math.floor(a / b)\<close> is the floor of the rounded quotient. For an integer
  \<open>a\<close> with \<open>\<bar>a\<bar> < 2^53\<close> and an integer \<open>b \<noteq> 0\<close> the rounded quotient differs from the
  exact one by less than \<open>1 / \<bar>b\<bar>\<close>, too little to reach or cross an integer, so the result
  is the floor of the exact quotient, \<open>a div b\<close> on \<^typ>\<open>int\<close>. Beyond that range the
  rounding can change the floor (\<^verbatim>\<open>Math.floor(1e17 / 3)\<close> is 33333333333333332, one less
  than the exact floor), and \<open>floorDiv\<close> below is not the handler's value there: every
  statement about a quotient bounds the dividend by 2^53. Division by zero does not raise
  in JavaScript: it gives \<^verbatim>\<open>Infinity\<close>, \<^verbatim>\<open>-Infinity\<close> or \<^verbatim>\<open>NaN\<close>, and the type
  \<open>jsnum\<close> below keeps these three values apart from the integers.

  The catalog. The handler only issues GET requests, so it does not change the catalog
  itself; the remote service is a snapshot: a function from each request to its response,
  where a rejected promise of \<^verbatim>\<open>bc.get\<close> is the value \<open>Inl\<close>.
\<close>

subsection \<open>Values\<close>

datatype error = FetchError | SyntaxError | SessionError

datatype jsnum = Num int | Infinity | NegInfinity | NaN

text \<open>\<^verbatim>\<open>x || 0\<close> on an optional integer: absent, null and 0 all give 0.\<close>

definition orZero :: "int option \<Rightarrow> int" where
  "orZero x = (case x of None \<Rightarrow> 0 | Some n \<Rightarrow> n)"

text \<open>\<^verbatim>\<open>if (x)\<close> on an optional integer: absent, null and 0 are falsy.\<close>

definition truthy :: "int option \<Rightarrow> bool" where
  "truthy x = (case x of None \<Rightarrow> False | Some n \<Rightarrow> n \<noteq> 0)"

text \<open>\<^verbatim>\<open>Math.floor(a / b)\<close> on integers, for a dividend with \<open>\<bar>a\<bar> < 2^53\<close>; for a larger
  one this is the floor of the exact quotient, which the double quotient may miss.\<close>

definition floorDiv :: "int \<Rightarrow> int \<Rightarrow> jsnum" where
  "floorDiv a b =
     (if b = 0 then (if a = 0 then NaN else if 0 < a then Infinity else NegInfinity)
      else Num (a div b))"

text \<open>\<^verbatim>\<open>Array.prototype.join\<close> on strings.\<close>

fun join :: "string \<Rightarrow> string list \<Rightarrow> string" where
  "join sep [] = []"
| "join sep [x] = x"
| "join sep (x # y # ys) = x @ sep @ join sep (y # ys)"

text \<open>\<^verbatim>\<open>String.prototype.toLowerCase\<close> on ASCII text.\<close>

definition lowerChar :: "char \<Rightarrow> char" where
  "lowerChar c =
     (case map_of (zip ''ABCDEFGHIJKLMNOPQRSTUVWXYZ'' ''abcdefghijklmnopqrstuvwxyz'') c of
        None \<Rightarrow> c
      | Some l \<Rightarrow> l)"

definition toLowerCase :: "string \<Rightarrow> string" where
  "toLowerCase s = map lowerChar s"

subsection \<open>The catalog's objects\<close>

record Category =
  cat_id :: int
  cat_name :: "string option"

record Metafield =
  mf_key :: string
  mf_namespace :: string
  mf_value :: string

record Variant =
  v_id :: int
  v_sku :: string
  v_inventory_level :: "int option"
  v_option_values :: "string list option"

record Product =
  p_id :: int
  p_name :: string
  p_sku :: string
  p_inventory_level :: "int option"
  p_variants :: "Variant list option"

text \<open>A page of \<^verbatim>\<open>/catalog/products\<close>: \<^verbatim>\<open>response.data\<close> and
  \<^verbatim>\<open>response.meta?.pagination?.total_pages\<close>.\<close>

record ProductsPage =
  data :: "Product list"
  total_pages :: "nat option"

subsection \<open>The route's own types\<close>

text \<open>What \<^verbatim>\<open>parseLinkedProduct\<close> returns.\<close>

record LinkedProduct =
  lp_productId :: int
  lp_variantId :: "int option"
  lp_quantity :: int

text \<open>
  \<^verbatim>\<open>interface BundleComponent\<close>, declared with the same fields in both files. The type
  of \<open>maxBundles\<close> is a parameter: in the route it is the result of a division
  (\<open>jsnum\<close>), on the page it is a \<^verbatim>\<open>number\<close> read from JSON (\<^typ>\<open>int\<close>).
\<close>

record 'n BundleComponent =
  productId :: int
  variantId :: "int option"
  name :: string
  sku :: string
  quantity :: int
  stock :: int
  maxBundles :: 'n

text \<open>\<^verbatim>\<open>interface BundleStockInfo\<close> of the route.\<close>

record 'n BundleStockInfo =
  bundle_id :: int
  bundle_name :: string
  bundle_sku :: string
  bundle_stock :: int
  components :: "'n BundleComponent list"

text \<open>\<^verbatim>\<open>interface Bundle\<close> of the page: the same fields and \<^verbatim>\<open>isExpanded?\<close>.\<close>

record 'n Bundle = "'n BundleStockInfo" +
  isExpanded :: "bool option"

datatype body = Message string | Bundles "jsnum BundleStockInfo list"

datatype response = Response nat body

subsection \<open>External collaborators\<close>

text \<open>
  \<open>'j\<close> is the type of the elements of a parsed metafield value.
  \<open>json_parse\<close> is \<^verbatim>\<open>JSON.parse\<close> followed by the iteration of \<^verbatim>\<open>for ... of\<close>: the
  elements in order, or the exception.

  \<^verbatim>\<open>parseLinkedProduct\<close>, imported from \<^verbatim>\<open>@lib/bundle-calculator\<close>, is not among the
  sources. It is a parameter: a function from an element of the parsed list to the three
  values the handler takes from its result at lines 95 and 177. Nothing more is assumed
  about it; in particular the quantity it returns may be any integer.

  \<open>getSession\<close> is the outcome of \<^verbatim>\<open>await getSession(req)\<close>: an exception, no session,
  or a session. The session only carries the credentials of the client \<^verbatim>\<open>bc\<close>, whose
  requests are the other fields.
\<close>

record 'j env =
  getSession :: "error + unit option"
  get_categories :: "error + Category list"
  get_products_page :: "int \<Rightarrow> nat \<Rightarrow> error + ProductsPage"
  get_product_metafields :: "int \<Rightarrow> error + Metafield list"
  get_variant_metafields :: "int \<Rightarrow> int \<Rightarrow> error + Metafield list"
  get_product :: "int \<Rightarrow> error + Product"
  get_variant :: "int \<Rightarrow> int \<Rightarrow> error + Variant"
  json_parse :: "string \<Rightarrow> error + 'j list"
  parseLinkedProduct :: "'j \<Rightarrow> LinkedProduct"

subsection \<open>The route: \<^verbatim>\<open>handler\<close> of stock.ts\<close>

text \<open>Lines 39-41: the first category whose lower-cased name is \<^verbatim>\<open>bundle\<close>.\<close>

definition isBundleCategory :: "Category \<Rightarrow> bool" where
  "isBundleCategory c =
     (toLowerCase (case cat_name c of None \<Rightarrow> [] | Some n \<Rightarrow> n) = ''bundle'')"

text \<open>
  Lines 49-70: the \<^verbatim>\<open>while (hasMorePages)\<close> loop. It need not end (a remote service
  may report ever more pages), so it is a partial function: \<open>None\<close> is a run that
  never returns. The last argument is a ghost variable, the page numbers requested so far.
  \<open>totalPages\<close> is line 67, \<^verbatim>\<open>total_pages || 1\<close>: an absent count and 0 both give 1.
\<close>

definition totalPages :: "ProductsPage \<Rightarrow> nat" where
  "totalPages response = (case total_pages response of None \<Rightarrow> 1 | Some t \<Rightarrow> if t = 0 then 1 else t)"

partial_function (option) fetchPages ::
  "'j env \<Rightarrow> int \<Rightarrow> nat \<Rightarrow> Product list \<Rightarrow> nat list \<Rightarrow> ((error + Product list) \<times> nat list) option"
where
  "fetchPages env categoryId currentPage allProducts requested =
     (case get_products_page env categoryId currentPage of
        Inl e \<Rightarrow> Some (Inl e, requested @ [currentPage])
      | Inr response \<Rightarrow>
          (if currentPage < totalPages response
           then fetchPages env categoryId (currentPage + 1) (allProducts @ data response)
                  (requested @ [currentPage])
           else Some (Inr (allProducts @ data response), requested @ [currentPage])))"

declare fetchPages.simps [code]

text \<open>Lines 105-107, 186-188 and 225-227: the display name of a variant.\<close>

definition variantName :: "string list option \<Rightarrow> string" where
  "variantName option_values =
     (case option_values of
        None \<Rightarrow> ''Variant''
      | Some labels \<Rightarrow> (if join '' - '' labels = [] then ''Variant'' else join '' - '' labels))"

text \<open>
  Lines 97-143, and the same code again at lines 179-222: one linked component. The
  \<^verbatim>\<open>try\<close> block is \<open>fetchComponent\<close>, the \<^verbatim>\<open>catch\<close> block is \<open>errorComponent\<close>.
\<close>

definition fetchComponent :: "'j env \<Rightarrow> LinkedProduct \<Rightarrow> error + jsnum BundleComponent" where
  "fetchComponent env lp =
     (if truthy (lp_variantId lp) then
        (case get_variant env (lp_productId lp) (orZero (lp_variantId lp)) of
           Inl e \<Rightarrow> Inl e
         | Inr variant \<Rightarrow>
             (case get_product env (lp_productId lp) of
                Inl e \<Rightarrow> Inl e
              | Inr parentProduct \<Rightarrow>
                  Inr \<lparr> productId = lp_productId lp,
                        variantId = lp_variantId lp,
                        name = p_name parentProduct @ '' - '' @ variantName (v_option_values variant),
                        sku = v_sku variant,
                        quantity = lp_quantity lp,
                        stock = orZero (v_inventory_level variant),
                        maxBundles = floorDiv (orZero (v_inventory_level variant)) (lp_quantity lp) \<rparr>))
      else
        (case get_product env (lp_productId lp) of
           Inl e \<Rightarrow> Inl e
         | Inr componentProduct \<Rightarrow>
             Inr \<lparr> productId = lp_productId lp,
                   variantId = None,
                   name = p_name componentProduct,
                   sku = p_sku componentProduct,
                   quantity = lp_quantity lp,
                   stock = orZero (p_inventory_level componentProduct),
                   maxBundles = floorDiv (orZero (p_inventory_level componentProduct)) (lp_quantity lp) \<rparr>))"

definition errorComponent :: "LinkedProduct \<Rightarrow> jsnum BundleComponent" where
  "errorComponent lp =
     \<lparr> productId = lp_productId lp,
       variantId = lp_variantId lp,
       name = ''Unknown Component'',
       sku = ''N/A'',
       quantity = lp_quantity lp,
       stock = 0,
       maxBundles = Num 0 \<rparr>"

definition resolveComponent :: "'j env \<Rightarrow> LinkedProduct \<Rightarrow> jsnum BundleComponent" where
  "resolveComponent env lp =
     (case fetchComponent env lp of Inl e \<Rightarrow> errorComponent lp | Inr c \<Rightarrow> c)"

text \<open>Lines 94-144 and 176-223: the loop over the linked list; \<open>comps\<close> is the array \<^verbatim>\<open>components\<close>.\<close>

fun resolveComponents ::
  "'j env \<Rightarrow> 'j list \<Rightarrow> jsnum BundleComponent list \<Rightarrow> jsnum BundleComponent list"
where
  "resolveComponents env [] comps = comps"
| "resolveComponents env (linkedProduct # rest) comps =
     resolveComponents env rest
       (comps @ [resolveComponent env (parseLinkedProduct env linkedProduct)])"

text \<open>Lines 80-82 and 162-164; lines 85-87 and 167-169.\<close>

definition isBundle :: "Metafield list \<Rightarrow> bool" where
  "isBundle metafields =
     (case find (\<lambda>f. mf_key f = ''is_bundle'' \<and> mf_namespace f = ''bundle'') metafields of
        None \<Rightarrow> False
      | Some f \<Rightarrow> mf_value f = ''true'')"

definition linkedField :: "Metafield list \<Rightarrow> Metafield option" where
  "linkedField metafields =
     find (\<lambda>f. mf_key f = ''linked_product_ids'' \<and> mf_namespace f = ''bundle'') metafields"

text \<open>Lines 79-154: the product's own bundle record, pushed to \<^verbatim>\<open>bundles\<close>.\<close>

definition productBundle ::
  "'j env \<Rightarrow> Product \<Rightarrow> jsnum BundleStockInfo list \<Rightarrow> error + jsnum BundleStockInfo list"
where
  "productBundle env product bundles =
     (case get_product_metafields env (p_id product) of
        Inl e \<Rightarrow> Inl e
      | Inr productMetafields \<Rightarrow>
          (if isBundle productMetafields then
             (case linkedField productMetafields of
                None \<Rightarrow> Inr bundles
              | Some lf \<Rightarrow>
                  (case json_parse env (mf_value lf) of
                     Inl e \<Rightarrow> Inl e
                   | Inr linkedProductIds \<Rightarrow>
                       Inr (bundles @
                         [\<lparr> bundle_id = p_id product,
                            bundle_name = p_name product,
                            bundle_sku = p_sku product,
                            bundle_stock = orZero (p_inventory_level product),
                            components = resolveComponents env linkedProductIds [] \<rparr>])))
           else Inr bundles))"

text \<open>Lines 159-237: the body of the loop over the variants.\<close>

definition variantBundle ::
  "'j env \<Rightarrow> Product \<Rightarrow> Variant \<Rightarrow> jsnum BundleStockInfo list \<Rightarrow> error + jsnum BundleStockInfo list"
where
  "variantBundle env product variant bundles =
     (case get_variant_metafields env (p_id product) (v_id variant) of
        Inl e \<Rightarrow> Inl e
      | Inr variantMetafields \<Rightarrow>
          (if isBundle variantMetafields then
             (case linkedField variantMetafields of
                None \<Rightarrow> Inr bundles
              | Some lf \<Rightarrow>
                  (case json_parse env (mf_value lf) of
                     Inl e \<Rightarrow> Inl e
                   | Inr linkedProductIds \<Rightarrow>
                       Inr (bundles @
                         [\<lparr> bundle_id = v_id variant,
                            bundle_name = p_name product @ '' - '' @ variantName (v_option_values variant),
                            bundle_sku = v_sku variant,
                            bundle_stock = orZero (v_inventory_level variant),
                            components = resolveComponents env linkedProductIds [] \<rparr>])))
           else Inr bundles))"

fun variantBundles ::
  "'j env \<Rightarrow> Product \<Rightarrow> Variant list \<Rightarrow> jsnum BundleStockInfo list \<Rightarrow> error + jsnum BundleStockInfo list"
where
  "variantBundles env product [] bundles = Inr bundles"
| "variantBundles env product (variant # rest) bundles =
     (case variantBundle env product variant bundles of
        Inl e \<Rightarrow> Inl e
      | Inr bundles' \<Rightarrow> variantBundles env product rest bundles')"

text \<open>Lines 77-240: the body of the loop over the products, and the loop.\<close>

definition processProduct ::
  "'j env \<Rightarrow> Product \<Rightarrow> jsnum BundleStockInfo list \<Rightarrow> error + jsnum BundleStockInfo list"
where
  "processProduct env product bundles =
     (case productBundle env product bundles of
        Inl e \<Rightarrow> Inl e
      | Inr bundles' \<Rightarrow>
          (case p_variants product of
             None \<Rightarrow> Inr bundles'
           | Some variants \<Rightarrow>
               (if length variants > 0 then variantBundles env product variants bundles'
                else Inr bundles')))"

fun processProducts ::
  "'j env \<Rightarrow> Product list \<Rightarrow> jsnum BundleStockInfo list \<Rightarrow> error + jsnum BundleStockInfo list"
where
  "processProducts env [] bundles = Inr bundles"
| "processProducts env (product # rest) bundles =
     (case processProduct env product bundles of
        Inl e \<Rightarrow> Inl e
      | Inr bundles' \<Rightarrow> processProducts env rest bundles')"

text \<open>Lines 72-242: what follows the pagination loop inside the \<^verbatim>\<open>try\<close> block.\<close>

definition respondBundles :: "'j env \<Rightarrow> Product list \<Rightarrow> error + response" where
  "respondBundles env products =
     (case processProducts env products [] of
        Inl e \<Rightarrow> Inl e
      | Inr bundles \<Rightarrow> Inr (Response 200 (Bundles bundles)))"

text \<open>Lines 29-242: the \<^verbatim>\<open>try\<close> block. \<open>Inl\<close> is an exception that reaches \<^verbatim>\<open>catch\<close>.\<close>

definition tryBlock :: "'j env \<Rightarrow> (error + response) option" where
  "tryBlock env =
     (case getSession env of
        Inl e \<Rightarrow> Some (Inl e)
      | Inr None \<Rightarrow> Some (Inr (Response 401 (Message ''Unauthorized'')))
      | Inr (Some session) \<Rightarrow>
          (case get_categories env of
             Inl e \<Rightarrow> Some (Inl e)
           | Inr categories \<Rightarrow>
               (case find isBundleCategory categories of
                  None \<Rightarrow> Some (Inr (Response 200 (Bundles [])))
                | Some bundleCategory \<Rightarrow>
                    (case fetchPages env (cat_id bundleCategory) 1 [] [] of
                       None \<Rightarrow> None
                     | Some (Inl e, requested) \<Rightarrow> Some (Inl e)
                     | Some (Inr products, requested) \<Rightarrow> Some (respondBundles env products)))))"

text \<open>Lines 23-247. The argument \<open>method\<close> is \<^verbatim>\<open>req.method\<close>.\<close>

definition handler :: "'j env \<Rightarrow> string \<Rightarrow> response option" where
  "handler env method =
     (if method \<noteq> ''GET'' then Some (Response 405 (Message ''Method not allowed''))
      else
        (case tryBlock env of
           None \<Rightarrow> None
         | Some (Inl e) \<Rightarrow> Some (Response 500 (Message ''Error fetching bundle stock''))
         | Some (Inr r) \<Rightarrow> Some r))"

subsection \<open>The page: \<^verbatim>\<open>toggleExpand\<close> and \<^verbatim>\<open>getTableItems\<close>\<close>

text \<open>The truth value of \<^verbatim>\<open>bundle.isExpanded\<close>: an absent flag is falsy.\<close>

definition expanded :: "('n, 'z) Bundle_scheme \<Rightarrow> bool" where
  "expanded bundle = (case isExpanded bundle of None \<Rightarrow> False | Some e \<Rightarrow> e)"

text \<open>Lines 58-66: the function that \<^verbatim>\<open>toggleExpand\<close> hands to \<^verbatim>\<open>setBundles\<close>, applied to
  the previous list.\<close>

definition toggleExpand :: "int \<Rightarrow> int Bundle list \<Rightarrow> int Bundle list" where
  "toggleExpand bundleId prev =
     map (\<lambda>bundle. if bundle_id bundle = bundleId
                    then bundle\<lparr>isExpanded := Some (\<not> expanded bundle)\<rparr>
                    else bundle) prev"

text \<open>\<^verbatim>\<open>String.prototype.includes\<close>.\<close>

fun includes_str :: "string \<Rightarrow> string \<Rightarrow> bool" where
  "includes_str [] q = (q = [])"
| "includes_str (c # cs) q = (take (length q) (c # cs) = q \<or> includes_str cs q)"

text \<open>Lines 90-98: the predicate of \<^verbatim>\<open>bundles.filter\<close>.\<close>

definition matchesQuery :: "string \<Rightarrow> int Bundle \<Rightarrow> bool" where
  "matchesQuery searchQuery bundle =
     (if searchQuery = [] then True
      else includes_str (toLowerCase (bundle_name bundle)) (toLowerCase searchQuery) \<or>
           includes_str (toLowerCase (bundle_sku bundle)) (toLowerCase searchQuery))"

text \<open>\<^verbatim>\<open>Math.min(...xs)\<close> on integers; with no argument it is \<^verbatim>\<open>Infinity\<close>.\<close>

fun Math_min :: "int list \<Rightarrow> jsnum" where
  "Math_min [] = Infinity"
| "Math_min (x # xs) = Num (fold min xs x)"

text \<open>Lines 102-104.\<close>

definition minMaxBundles :: "int Bundle \<Rightarrow> jsnum" where
  "minMaxBundles bundle =
     (if length (components bundle) > 0 then Math_min (map maxBundles (components bundle))
      else Num 0)"

text \<open>
  A row of the table. The row id of a component, \<^verbatim>\<open>`${bundle.id}-component-${idx}`\<close>, is
  kept as the pair it is built from. \<open>None\<close> in \<open>item_quantity\<close> and
  \<open>item_maxBundles\<close> is the text \<^verbatim>\<open>'-'\<close> of a bundle row; \<open>None\<close> in the last three
  fields is a property the row does not have.
\<close>

datatype item_id = BundleRow int | ComponentRow int nat

record Item =
  item_id :: item_id
  item_type :: string
  item_name :: string
  item_sku :: string
  item_stock :: int
  item_quantity :: "int option"
  item_maxBundles :: "int option"
  item_bundle :: "int Bundle option"
  isComponent :: "bool option"
  isLimiting :: "bool option"

text \<open>Lines 107-116.\<close>

definition bundleItem :: "int Bundle \<Rightarrow> Item" where
  "bundleItem bundle =
     \<lparr> item_id = BundleRow (bundle_id bundle),
       item_type = ''bundle'',
       item_name = bundle_name bundle,
       item_sku = bundle_sku bundle,
       item_stock = bundle_stock bundle,
       item_quantity = None,
       item_maxBundles = None,
       item_bundle = Some bundle,
       isComponent = None,
       isLimiting = None \<rparr>"

text \<open>Lines 120-133: the callback of \<^verbatim>\<open>bundle.components.forEach\<close>.\<close>

definition componentItem :: "int Bundle \<Rightarrow> nat \<Rightarrow> int BundleComponent \<Rightarrow> Item" where
  "componentItem bundle idx component =
     \<lparr> item_id = ComponentRow (bundle_id bundle) idx,
       item_type = ''component'',
       item_name = name component,
       item_sku = sku component,
       item_stock = stock component,
       item_quantity = Some (quantity component),
       item_maxBundles = Some (maxBundles component),
       item_bundle = None,
       isComponent = Some True,
       isLimiting = Some (Num (maxBundles component) = minMaxBundles bundle) \<rparr>"

text \<open>Lines 100-135: the rows one bundle adds to \<^verbatim>\<open>items\<close>.\<close>

definition itemsOfBundle :: "int Bundle \<Rightarrow> Item list" where
  "itemsOfBundle bundle =
     bundleItem bundle #
     (if expanded bundle
      then map (\<lambda>(idx, component). componentItem bundle idx component)
             (enumerate 0 (components bundle))
      else [])"

text \<open>Lines 86-138. The arguments are the state variables \<^verbatim>\<open>bundles\<close> and
  \<^verbatim>\<open>searchQuery\<close>.\<close>

definition getTableItems :: "int Bundle list \<Rightarrow> string \<Rightarrow> Item list" where
  "getTableItems bundles searchQuery =
     concat (map itemsOfBundle (filter (matchesQuery searchQuery) bundles))"

subsection \<open>Notions the properties are stated with\<close>

text \<open>The variants the loop of line 158 visits: none when the list is absent or empty.\<close>

definition variantsOf :: "Product \<Rightarrow> Variant list" where
  "variantsOf product = (case p_variants product of None \<Rightarrow> [] | Some variants \<Rightarrow> variants)"

text \<open>A detail fetch of a linked component fails: one of the \<^verbatim>\<open>bc.get\<close> calls of its
  \<^verbatim>\<open>try\<close> block is rejected.\<close>

definition detailFetchFails :: "'j env \<Rightarrow> LinkedProduct \<Rightarrow> bool" where
  "detailFetchFails env lp =
     (if truthy (lp_variantId lp)
      then isl (get_variant env (lp_productId lp) (orZero (lp_variantId lp))) \<or>
           isl (get_product env (lp_productId lp))
      else isl (get_product env (lp_productId lp)))"

text \<open>The inventory level the detail fetch reports: the variant's when the reference names a
  variant, the product's otherwise; \<open>None\<close> when the field is absent.\<close>

definition fetchedInventory :: "'j env \<Rightarrow> LinkedProduct \<Rightarrow> int option" where
  "fetchedInventory env lp =
     (if truthy (lp_variantId lp)
      then (case get_variant env (lp_productId lp) (orZero (lp_variantId lp)) of
              Inl e \<Rightarrow> None | Inr variant \<Rightarrow> v_inventory_level variant)
      else (case get_product env (lp_productId lp) of
              Inl e \<Rightarrow> None | Inr product \<Rightarrow> p_inventory_level product))"

text \<open>The placeholder of the specification, written out.\<close>

definition placeholder :: "int \<Rightarrow> int option \<Rightarrow> int \<Rightarrow> jsnum BundleComponent" where
  "placeholder pid vid q =
     \<lparr> productId = pid, variantId = vid, name = ''Unknown Component'', sku = ''N/A'',
       quantity = q, stock = 0, maxBundles = Num 0 \<rparr>"

text \<open>
  The records one step of the scan adds, taken alone: what the step pushes to an empty
  array. \<open>catalogOrder\<close> lays them out in the order of the specification: product by
  product, the product's own record first, then the records of its variants in the order
  of the variant list.
\<close>

definition productRecords :: "'j env \<Rightarrow> Product \<Rightarrow> jsnum BundleStockInfo list" where
  "productRecords env product =
     (case productBundle env product [] of Inl e \<Rightarrow> [] | Inr records \<Rightarrow> records)"

definition variantRecords :: "'j env \<Rightarrow> Product \<Rightarrow> Variant \<Rightarrow> jsnum BundleStockInfo list" where
  "variantRecords env product variant =
     (case variantBundle env product variant [] of Inl e \<Rightarrow> [] | Inr records \<Rightarrow> records)"

definition catalogOrder :: "'j env \<Rightarrow> Product list \<Rightarrow> jsnum BundleStockInfo list" where
  "catalogOrder env products =
     concat (map (\<lambda>product. productRecords env product @
                     concat (map (variantRecords env product) (variantsOf product)))
               products)"

text \<open>
  The failures that are fatal for the request: the metafield fetch of a product or variant
  is rejected, or the linked list of a bundle-flagged one does not parse.
\<close>

definition linkedListFails :: "'j env \<Rightarrow> Metafield list \<Rightarrow> bool" where
  "linkedListFails env metafields =
     (isBundle metafields \<and>
      (case linkedField metafields of
         None \<Rightarrow> False
       | Some lf \<Rightarrow> isl (json_parse env (mf_value lf))))"

definition entityFails :: "'j env \<Rightarrow> error + Metafield list \<Rightarrow> bool" where
  "entityFails env fetched =
     (case fetched of Inl e \<Rightarrow> True | Inr metafields \<Rightarrow> linkedListFails env metafields)"

definition productFails :: "'j env \<Rightarrow> Product \<Rightarrow> bool" where
  "productFails env product =
     (entityFails env (get_product_metafields env (p_id product)) \<or>
      (\<exists>variant \<in> set (variantsOf product).
         entityFails env (get_variant_metafields env (p_id product) (v_id variant))))"

subsection \<open>A sample catalog\<close>

text \<open>
  The catalog of the specification's end-to-end example (bundle product 10 made of product
  20 twice and variant 5 of product 21 once), with more entries: a bundle-flagged product
  without a linked list (11), two variants of it (30, a bundle; 31, flagged without a list),
  a second bundle with the same components and a name that sorts first (12), a component
  that cannot be fetched (99), a component with a negative inventory level (22), and
  references with the quantities -1 and 0. The elements of a parsed list are the references
  themselves.
\<close>

definition ref20 :: LinkedProduct where
  "ref20 = \<lparr> lp_productId = 20, lp_variantId = None, lp_quantity = 2 \<rparr>"

definition ref21 :: LinkedProduct where
  "ref21 = \<lparr> lp_productId = 21, lp_variantId = Some 5, lp_quantity = 1 \<rparr>"

definition ref99 :: LinkedProduct where
  "ref99 = \<lparr> lp_productId = 99, lp_variantId = None, lp_quantity = 4 \<rparr>"

definition ref22 :: LinkedProduct where
  "ref22 = \<lparr> lp_productId = 22, lp_variantId = None, lp_quantity = 2 \<rparr>"

definition refNeg :: LinkedProduct where
  "refNeg = \<lparr> lp_productId = 20, lp_variantId = None, lp_quantity = - 1 \<rparr>"

definition refZero :: LinkedProduct where
  "refZero = \<lparr> lp_productId = 20, lp_variantId = None, lp_quantity = 0 \<rparr>"

definition flag :: Metafield where
  "flag = \<lparr> mf_key = ''is_bundle'', mf_namespace = ''bundle'', mf_value = ''true'' \<rparr>"

definition linked :: "string \<Rightarrow> Metafield" where
  "linked v = \<lparr> mf_key = ''linked_product_ids'', mf_namespace = ''bundle'', mf_value = v \<rparr>"

definition V30 :: Variant where
  "V30 = \<lparr> v_id = 30, v_sku = ''BDL-2-S'', v_inventory_level = Some 4,
           v_option_values = Some [''Small''] \<rparr>"

definition V31 :: Variant where
  "V31 = \<lparr> v_id = 31, v_sku = ''BDL-2-L'', v_inventory_level = None,
           v_option_values = None \<rparr>"

definition P1 :: Product where
  "P1 = \<lparr> p_id = 10, p_name = ''P1'', p_sku = ''BDL-1'', p_inventory_level = Some 5,
          p_variants = None \<rparr>"

definition P2 :: Product where
  "P2 = \<lparr> p_id = 11, p_name = ''P2'', p_sku = ''BDL-2'', p_inventory_level = None,
          p_variants = Some [V30, V31] \<rparr>"

definition P3 :: Product where
  "P3 = \<lparr> p_id = 12, p_name = ''A pack'', p_sku = ''AAA'', p_inventory_level = Some 1,
          p_variants = Some [] \<rparr>"

definition shop :: "LinkedProduct env" where
  "shop =
     \<lparr> getSession = Inr (Some ()),
       get_categories =
         Inr [\<lparr> cat_id = 3, cat_name = Some ''Shoes'' \<rparr>, \<lparr> cat_id = 7, cat_name = Some ''Bundle'' \<rparr>],
       get_products_page = (\<lambda>cid page.
         if cid = 7 \<and> page = 1 then Inr \<lparr> data = [P1], total_pages = Some 3 \<rparr>
         else if cid = 7 \<and> page = 2 then Inr \<lparr> data = [P2], total_pages = Some 3 \<rparr>
         else if cid = 7 \<and> page = 3 then Inr \<lparr> data = [P3], total_pages = Some 3 \<rparr>
         else Inl FetchError),
       get_product_metafields = (\<lambda>pid.
         if pid = 10 then Inr [flag, linked ''L1'']
         else if pid = 11 then Inr [flag]
         else if pid = 12 then Inr [linked ''L1'', flag]
         else if pid = 14 then Inr [flag, linked ''not json'']
         else Inl FetchError),
       get_variant_metafields = (\<lambda>pid vid.
         if pid = 11 \<and> vid = 30 then Inr [flag, linked ''L2'']
         else if pid = 11 \<and> vid = 31 then Inr [flag]
         else Inl FetchError),
       get_product = (\<lambda>pid.
         if pid = 20 then Inr \<lparr> p_id = 20, p_name = ''Widget'', p_sku = ''W-20'',
                                p_inventory_level = Some 10, p_variants = None \<rparr>
         else if pid = 21 then Inr \<lparr> p_id = 21, p_name = ''Shirt'', p_sku = ''S-21'',
                                     p_inventory_level = Some 8, p_variants = None \<rparr>
         else if pid = 22 then Inr \<lparr> p_id = 22, p_name = ''Gadget'', p_sku = ''G-22'',
                                     p_inventory_level = Some (- 3), p_variants = None \<rparr>
         else Inl FetchError),
       get_variant = (\<lambda>pid vid.
         if pid = 21 \<and> vid = 5 then Inr \<lparr> v_id = 5, v_sku = ''S-21-RL'', v_inventory_level = Some 3,
                                          v_option_values = Some [''Red'', ''L''] \<rparr>
         else Inl FetchError),
       json_parse = (\<lambda>v.
         if v = ''L1'' then Inr [ref20, ref21]
         else if v = ''L2'' then Inr [ref99, ref20, ref22, refNeg, refZero]
         else Inl SyntaxError),
       parseLinkedProduct = (\<lambda>j. j) \<rparr>"

text \<open>Two products the sample service fails on: the metafields of product 13 cannot be
  fetched, and the linked list of product 14 is not JSON.\<close>

definition P4 :: Product where
  "P4 = \<lparr> p_id = 13, p_name = ''P4'', p_sku = ''BDL-4'', p_inventory_level = Some 2,
          p_variants = None \<rparr>"

definition P5 :: Product where
  "P5 = \<lparr> p_id = 14, p_name = ''P5'', p_sku = ''BDL-5'', p_inventory_level = Some 2,
          p_variants = None \<rparr>"

text \<open>
  Variations of the sample service: the category list cannot be fetched; the second page
  of the category cannot be fetched; the category has the one page given.
\<close>

definition noCategories :: "LinkedProduct env" where
  "noCategories = shop\<lparr> get_categories := Inl FetchError \<rparr>"

definition brokenPages :: "LinkedProduct env" where
  "brokenPages =
     shop\<lparr> get_products_page := (\<lambda>cid page.
       if page = 1 then Inr \<lparr> data = [P1], total_pages = Some 2 \<rparr> else Inl FetchError) \<rparr>"

definition onePage :: "Product list \<Rightarrow> LinkedProduct env" where
  "onePage products =
     shop\<lparr> get_products_page := (\<lambda>cid page. Inr \<lparr> data = products, total_pages = None \<rparr>) \<rparr>"

text \<open>The sample service with an empty category.\<close>

definition emptyShop :: "LinkedProduct env" where
  "emptyShop = shop\<lparr> get_products_page := (\<lambda>cid page. Inr \<lparr> data = [], total_pages = Some 0 \<rparr>) \<rparr>"

text \<open>Three bundles as the page holds them; the first and the last have the same id.\<close>

definition comp :: "int \<Rightarrow> int \<Rightarrow> int \<Rightarrow> int BundleComponent" where
  "comp pid q s =
     \<lparr> productId = pid, variantId = None, name = ''c'', sku = ''s'', quantity = q, stock = s,
       maxBundles = s div q \<rparr>"

definition bundleA :: "int Bundle" where
  "bundleA =
     \<lparr> bundle_id = 10, bundle_name = ''P1'', bundle_sku = ''BDL-1'', bundle_stock = 5,
       components = [comp 20 2 10, comp 21 1 3, comp 23 2 7], isExpanded = Some True \<rparr>"

definition bundleB :: "int Bundle" where
  "bundleB =
     \<lparr> bundle_id = 30, bundle_name = ''P2 - Small'', bundle_sku = ''BDL-2-S'', bundle_stock = 4,
       components = [], isExpanded = None \<rparr>"

definition bundleC :: "int Bundle" where
  "bundleC =
     \<lparr> bundle_id = 10, bundle_name = ''Other'', bundle_sku = ''X'', bundle_stock = 0,
       components = [comp 20 1 6], isExpanded = Some False \<rparr>"

definition pageBundles :: "int Bundle list" where
  "pageBundles = [bundleA, bundleB, bundleC]"

section \<open>Lemmas\<close>

subsection \<open>Linked components\<close>

text \<open>The loop over a linked list appends one component per reference, in order.\<close>

lemma resolveComponents_acc:
  "resolveComponents env raw comps =
     comps @ map (\<lambda>j. resolveComponent env (parseLinkedProduct env j)) raw"
  by (induction raw arbitrary: comps) simp_all

lemma resolveComponents_nth:
  "i < length raw \<Longrightarrow>
     resolveComponents env raw [] ! i = resolveComponent env (parseLinkedProduct env (raw ! i))"
  by (simp add: resolveComponents_acc)

lemma resolveComponent_fails:
  "detailFetchFails env lp \<Longrightarrow> resolveComponent env lp = errorComponent lp"
  by (auto simp: detailFetchFails_def resolveComponent_def fetchComponent_def isl_def
      split: if_splits sum.splits)

lemma resolveComponent_ok:
  "\<not> detailFetchFails env lp \<Longrightarrow>
     stock (resolveComponent env lp) = orZero (fetchedInventory env lp) \<and>
     maxBundles (resolveComponent env lp) =
       floorDiv (orZero (fetchedInventory env lp)) (lp_quantity lp)"
  by (auto simp: detailFetchFails_def resolveComponent_def fetchComponent_def
      fetchedInventory_def isl_def split: if_splits sum.splits)

lemma floorDiv_floor:
  "q \<noteq> 0 \<Longrightarrow> floorDiv s q = Num \<lfloor>real_of_int s / real_of_int q\<rfloor>"
  by (simp add: floorDiv_def floor_divide_of_int_eq)

text \<open>The record a bundle-flagged product or variant with a parsed list adds.\<close>

lemma productBundle_linked:
  assumes "get_product_metafields env (p_id product) = Inr metafields"
    and "isBundle metafields" and "linkedField metafields = Some lf"
    and "json_parse env (mf_value lf) = Inr raw"
  shows "productBundle env product bundles =
     Inr (bundles @
       [\<lparr> bundle_id = p_id product, bundle_name = p_name product, bundle_sku = p_sku product,
          bundle_stock = orZero (p_inventory_level product),
          components = map (\<lambda>j. resolveComponent env (parseLinkedProduct env j)) raw \<rparr>])"
  using assms by (simp add: productBundle_def resolveComponents_acc)

lemma variantBundle_linked:
  assumes "get_variant_metafields env (p_id product) (v_id variant) = Inr metafields"
    and "isBundle metafields" and "linkedField metafields = Some lf"
    and "json_parse env (mf_value lf) = Inr raw"
  shows "variantBundle env product variant bundles =
     Inr (bundles @
       [\<lparr> bundle_id = v_id variant,
          bundle_name = p_name product @ '' - '' @ variantName (v_option_values variant),
          bundle_sku = v_sku variant,
          bundle_stock = orZero (v_inventory_level variant),
          components = map (\<lambda>j. resolveComponent env (parseLinkedProduct env j)) raw \<rparr>])"
  using assms by (simp add: variantBundle_def resolveComponents_acc)

subsection \<open>The pagination loop\<close>

text \<open>
  A run of the loop from page \<open>k\<close> that ends at page \<open>N\<close>: every page up to \<open>N\<close> is
  answered, every page before \<open>N\<close> reports more pages than its own number, and page \<open>N\<close>
  does not.
\<close>

lemma fetchPages_run:
  assumes "k \<le> N"
    and "\<forall>p. k \<le> p \<and> p \<le> N \<longrightarrow> get_products_page env cid p = Inr (pg p)"
    and "\<forall>p. k \<le> p \<and> p < N \<longrightarrow> p < totalPages (pg p)"
    and "\<not> N < totalPages (pg N)"
  shows "fetchPages env cid k acc req =
           Some (Inr (acc @ concat (map (\<lambda>p. data (pg p)) [k..<Suc N])), req @ [k..<Suc N])"
  using assms
proof (induction "N - k" arbitrary: k acc req)
  case 0
  then have "k = N" by simp
  with 0 show ?case
    by (subst fetchPages.simps) simp
next
  case (Suc n)
  then have less: "k < N" and page: "get_products_page env cid k = Inr (pg k)"
    and more: "k < totalPages (pg k)"
    by auto
  have "fetchPages env cid (Suc k) (acc @ data (pg k)) (req @ [k]) =
          Some (Inr ((acc @ data (pg k)) @ concat (map (\<lambda>p. data (pg p)) [Suc k..<Suc N])),
                (req @ [k]) @ [Suc k..<Suc N])"
    using Suc.prems Suc.hyps(2) less by (intro Suc.hyps(1)) auto
  moreover have "[k..<Suc N] = k # [Suc k..<Suc N]"
    using less by (simp add: upt_conv_Cons)
  ultimately show ?case
    using page more by (subst fetchPages.simps) simp
qed

text \<open>A run that meets a rejected page request at page \<open>K\<close>.\<close>

lemma fetchPages_fail:
  assumes "k \<le> K"
    and "\<forall>p. k \<le> p \<and> p < K \<longrightarrow> (\<exists>r. get_products_page env cid p = Inr r \<and> p < totalPages r)"
    and "get_products_page env cid K = Inl e"
  shows "\<exists>req'. fetchPages env cid k acc req = Some (Inl e, req')"
  using assms
proof (induction "K - k" arbitrary: k acc req)
  case 0
  then have "k = K" by simp
  with 0 show ?case
    by (subst fetchPages.simps) simp
next
  case (Suc n)
  then have less: "k < K" by simp
  with Suc.prems obtain r where page: "get_products_page env cid k = Inr r"
    and more: "k < totalPages r"
    by auto
  have "\<exists>req'. fetchPages env cid (Suc k) (acc @ data r) (req @ [k]) = Some (Inl e, req')"
    using Suc.prems Suc.hyps(2) less by (intro Suc.hyps(1)) auto
  then show ?case
    using page more by (subst fetchPages.simps) simp
qed

subsection \<open>The scan of the products\<close>

text \<open>
  Each step of the scan either raises, exactly when the metafield fetch or the parse of the
  linked list of its product or variant fails, or appends its own records to \<^verbatim>\<open>bundles\<close>.
\<close>

lemma productBundle_ok:
  "\<not> entityFails env (get_product_metafields env (p_id product)) \<Longrightarrow>
     productBundle env product bundles = Inr (bundles @ productRecords env product)"
  by (auto simp: entityFails_def linkedListFails_def productRecords_def productBundle_def isl_def
      split: sum.splits option.splits)

lemma productBundle_fail:
  "entityFails env (get_product_metafields env (p_id product)) \<Longrightarrow>
     isl (productBundle env product bundles)"
  by (auto simp: entityFails_def linkedListFails_def productBundle_def isl_def
      split: sum.splits option.splits)

lemma variantBundle_ok:
  "\<not> entityFails env (get_variant_metafields env (p_id product) (v_id variant)) \<Longrightarrow>
     variantBundle env product variant bundles =
       Inr (bundles @ variantRecords env product variant)"
  by (auto simp: entityFails_def linkedListFails_def variantRecords_def variantBundle_def isl_def
      split: sum.splits option.splits)

lemma variantBundle_fail:
  "entityFails env (get_variant_metafields env (p_id product) (v_id variant)) \<Longrightarrow>
     isl (variantBundle env product variant bundles)"
  by (auto simp: entityFails_def linkedListFails_def variantBundle_def isl_def
      split: sum.splits option.splits)

lemma variantBundles_ok:
  "\<forall>v \<in> set variants. \<not> entityFails env (get_variant_metafields env (p_id product) (v_id v)) \<Longrightarrow>
     variantBundles env product variants bundles =
       Inr (bundles @ concat (map (variantRecords env product) variants))"
  by (induction variants arbitrary: bundles) (simp_all add: variantBundle_ok)

lemma variantBundles_fail:
  "\<exists>v \<in> set variants. entityFails env (get_variant_metafields env (p_id product) (v_id v)) \<Longrightarrow>
     isl (variantBundles env product variants bundles)"
proof (induction variants arbitrary: bundles)
  case Nil
  then show ?case by simp
next
  case (Cons v variants)
  show ?case
  proof (cases "entityFails env (get_variant_metafields env (p_id product) (v_id v))")
    case True
    then have "isl (variantBundle env product v bundles)"
      by (rule variantBundle_fail)
    then show ?thesis
      by (auto simp: isl_def)
  next
    case False
    with Cons.prems have "\<exists>v \<in> set variants.
        entityFails env (get_variant_metafields env (p_id product) (v_id v))"
      by auto
    then show ?thesis
      using False by (simp add: variantBundle_ok Cons.IH)
  qed
qed

lemma processProduct_ok:
  assumes "\<not> productFails env product"
  shows "processProduct env product bundles =
     Inr (bundles @ productRecords env product @
            concat (map (variantRecords env product) (variantsOf product)))"
proof -
  have own: "\<not> entityFails env (get_product_metafields env (p_id product))"
    and vs: "\<forall>v \<in> set (variantsOf product).
      \<not> entityFails env (get_variant_metafields env (p_id product) (v_id v))"
    using assms by (auto simp: productFails_def)
  show ?thesis
  proof (cases "p_variants product")
    case None
    then show ?thesis
      by (simp add: processProduct_def productBundle_ok [OF own] variantsOf_def)
  next
    case (Some variants)
    then have "variantsOf product = variants"
      by (simp add: variantsOf_def)
    with vs Some show ?thesis
      by (simp add: processProduct_def productBundle_ok [OF own] variantBundles_ok)
  qed
qed

lemma processProduct_fail:
  assumes "productFails env product"
  shows "isl (processProduct env product bundles)"
proof (cases "entityFails env (get_product_metafields env (p_id product))")
  case True
  then have "isl (productBundle env product bundles)"
    by (rule productBundle_fail)
  then show ?thesis
    by (auto simp: processProduct_def isl_def)
next
  case False
  with assms have ex': "\<exists>v \<in> set (variantsOf product).
      entityFails env (get_variant_metafields env (p_id product) (v_id v))"
    by (simp add: productFails_def)
  then obtain variants where some: "p_variants product = Some variants"
    by (cases "p_variants product") (simp_all add: variantsOf_def)
  with ex' have ex: "\<exists>v \<in> set variants.
      entityFails env (get_variant_metafields env (p_id product) (v_id v))"
    by (simp add: variantsOf_def)
  from ex have "0 < length variants"
    by auto
  then show ?thesis
    using some variantBundles_fail [OF ex]
    by (simp add: processProduct_def productBundle_ok [OF False])
qed

lemma processProducts_ok:
  "\<forall>p \<in> set products. \<not> productFails env p \<Longrightarrow>
     processProducts env products bundles = Inr (bundles @ catalogOrder env products)"
  by (induction products arbitrary: bundles) (simp_all add: processProduct_ok catalogOrder_def)

lemma processProducts_fail:
  "\<exists>p \<in> set products. productFails env p \<Longrightarrow> isl (processProducts env products bundles)"
proof (induction products arbitrary: bundles)
  case Nil
  then show ?case by simp
next
  case (Cons p products)
  show ?case
  proof (cases "productFails env p")
    case True
    then have "isl (processProduct env p bundles)"
      by (rule processProduct_fail)
    then show ?thesis
      by (auto simp: isl_def)
  next
    case False
    with Cons.prems have "\<exists>p \<in> set products. productFails env p"
      by auto
    then show ?thesis
      using False by (simp add: processProduct_ok Cons.IH)
  qed
qed

text \<open>A step adds at most one record, with the id of its product or variant.\<close>

lemma productRecords_shape:
  "length (productRecords env product) \<le> 1 \<and>
   (\<forall>r \<in> set (productRecords env product). bundle_id r = p_id product)"
  by (auto simp: productRecords_def productBundle_def split: sum.splits option.splits)

lemma variantRecords_shape:
  "length (variantRecords env product variant) \<le> 1 \<and>
   (\<forall>r \<in> set (variantRecords env product variant). bundle_id r = v_id variant)"
  by (auto simp: variantRecords_def variantBundle_def split: sum.splits option.splits)

text \<open>The handler once the session, the category and the products are there.\<close>

lemma handler_after_fetch:
  assumes "getSession env = Inr (Some session)"
    and "get_categories env = Inr categories"
    and "find isBundleCategory categories = Some bundleCategory"
    and "fetchPages env (cat_id bundleCategory) 1 [] [] = Some (Inr products, requested)"
  shows "handler env ''GET'' =
     Some (case processProducts env products [] of
             Inl e \<Rightarrow> Response 500 (Message ''Error fetching bundle stock'')
           | Inr bundles \<Rightarrow> Response 200 (Bundles bundles))"
  using assms by (simp add: handler_def tryBlock_def respondBundles_def split: sum.splits)

lemma handler_fetch_fails:
  assumes "getSession env = Inr (Some session)"
    and "get_categories env = Inr categories"
    and "find isBundleCategory categories = Some bundleCategory"
    and "fetchPages env (cat_id bundleCategory) 1 [] [] = Some (Inl e, requested)"
  shows "handler env ''GET'' = Some (Response 500 (Message ''Error fetching bundle stock''))"
  using assms by (simp add: handler_def tryBlock_def)

subsection \<open>The threshold of the page\<close>

text \<open>\<^verbatim>\<open>Math.min\<close> of a non-empty list is its least element.\<close>

lemma Math_min_Min: "xs \<noteq> [] \<Longrightarrow> Math_min xs = Num (Min (set xs))"
proof (cases xs)
  case Nil
  assume "xs \<noteq> []"
  with Nil show ?thesis by simp
next
  case (Cons x ys)
  have "Min (set (x # ys)) = fold min ys x"
    by (rule Min.set_eq_fold)
  with Cons show ?thesis
    by (simp only: Math_min.simps)
qed

lemma minMaxBundles_Min:
  "minMaxBundles bundle =
     Num (if components bundle = [] then 0
          else Min (set (map maxBundles (components bundle))))"
  by (simp add: minMaxBundles_def Math_min_Min)

subsection \<open>The end-to-end example\<close>

text \<open>The responses of the sample service that the scan of its three products reads.\<close>

lemma shop_fields:
  "getSession shop = Inr (Some ())"
  "get_categories shop =
     Inr [\<lparr> cat_id = 3, cat_name = Some ''Shoes'' \<rparr>, \<lparr> cat_id = 7, cat_name = Some ''Bundle'' \<rparr>]"
  "get_product_metafields shop 10 = Inr [flag, linked ''L1'']"
  "get_product_metafields shop 11 = Inr [flag]"
  "get_product_metafields shop 12 = Inr [linked ''L1'', flag]"
  "get_variant_metafields shop 11 30 = Inr [flag, linked ''L2'']"
  "get_variant_metafields shop 11 31 = Inr [flag]"
  "json_parse shop ''L1'' = Inr [ref20, ref21]"
  "json_parse shop ''L2'' = Inr [ref99, ref20, ref22, refNeg, refZero]"
  "parseLinkedProduct shop = (\<lambda>j. j)"
  by (simp_all add: shop_def)

text \<open>The components of the example of the specification: product 20 with stock 10 taken
  twice, and variant 5 of product 21 with stock 3 taken once.\<close>

lemma shop_components:
  "map (resolveComponent shop) [ref20, ref21] =
     [\<lparr> productId = 20, variantId = None, name = ''Widget'', sku = ''W-20'',
        quantity = 2, stock = 10, maxBundles = Num 5 \<rparr>,
      \<lparr> productId = 21, variantId = Some 5, name = ''Shirt - Red - L'', sku = ''S-21-RL'',
        quantity = 1, stock = 3, maxBundles = Num 3 \<rparr>]"
  by (simp add: resolveComponent_def fetchComponent_def shop_def ref20_def ref21_def truthy_def
      orZero_def floorDiv_def variantName_def)

text \<open>The answer to a GET request: the record of the example first, as the specification
  gives it, then the records of variant 30 and of product 12.\<close>

lemma shop_answer:
  "handler shop ''GET'' =
     Some (Response 200 (Bundles
       [\<lparr> bundle_id = 10, bundle_name = ''P1'', bundle_sku = ''BDL-1'', bundle_stock = 5,
          components = map (resolveComponent shop) [ref20, ref21] \<rparr>,
        \<lparr> bundle_id = 30, bundle_name = ''P2 - Small'', bundle_sku = ''BDL-2-S'', bundle_stock = 4,
          components = map (resolveComponent shop) [ref99, ref20, ref22, refNeg, refZero] \<rparr>,
        \<lparr> bundle_id = 12, bundle_name = ''A pack'', bundle_sku = ''AAA'', bundle_stock = 1,
          components = map (resolveComponent shop) [ref20, ref21] \<rparr>]))"
proof -
  have pages: "fetchPages shop 7 1 [] [] = Some (Inr [P1, P2, P3], [1, 2, 3])"
    by (simp add: fetchPages.simps shop_def totalPages_def)
  have found: "find isBundleCategory
      [\<lparr> cat_id = 3, cat_name = Some ''Shoes'' \<rparr>, \<lparr> cat_id = 7, cat_name = Some ''Bundle'' \<rparr>] =
      Some \<lparr> cat_id = 7, cat_name = Some ''Bundle'' \<rparr>"
    by (simp add: isBundleCategory_def toLowerCase_def lowerChar_def)
  have scan: "processProducts shop [P1, P2, P3] [] =
      Inr [\<lparr> bundle_id = 10, bundle_name = ''P1'', bundle_sku = ''BDL-1'', bundle_stock = 5,
          components = map (resolveComponent shop) [ref20, ref21] \<rparr>,
        \<lparr> bundle_id = 30, bundle_name = ''P2 - Small'', bundle_sku = ''BDL-2-S'', bundle_stock = 4,
          components = map (resolveComponent shop) [ref99, ref20, ref22, refNeg, refZero] \<rparr>,
        \<lparr> bundle_id = 12, bundle_name = ''A pack'', bundle_sku = ''AAA'', bundle_stock = 1,
          components = map (resolveComponent shop) [ref20, ref21] \<rparr>]"
    by (simp add: processProduct_def productBundle_def variantBundle_def resolveComponents_acc
        shop_fields isBundle_def linkedField_def flag_def linked_def orZero_def variantName_def
        P1_def P2_def P3_def V30_def V31_def)
  show ?thesis
    using handler_after_fetch [of shop "()" _ _ "[P1, P2, P3]" "[1, 2, 3]"] found pages scan
    by (simp add: shop_fields)
qed

section \<open>The claims\<close>

text \<open>
  Claim C1, as amended. For the component at any position of a linked list, when the
  parsed quantity is positive, the detail fetch succeeds and the fetched inventory level
  is below 2^53 in magnitude: its stock is the fetched inventory level, 0 if absent; its
  maxBundles is the integer floor(stock / quantity); and that integer is non-negative
  exactly when the stock is. The code does not clamp a negative inventory level. The bound
  is the range in which \<open>floorDiv\<close> is the handler's \<^verbatim>\<open>Math.floor\<close> of the double quotient.
\<close>

theorem C1_maxBundles_floor:
  assumes "i < length raw"
    and "lp = parseLinkedProduct env (raw ! i)"
    and "c = resolveComponents env raw [] ! i"
    and "0 < lp_quantity lp"
    and "\<not> detailFetchFails env lp"
    and "\<bar>orZero (fetchedInventory env lp)\<bar> < 2 ^ 53"
  shows "stock c = orZero (fetchedInventory env lp) \<and>
         maxBundles c = Num \<lfloor>real_of_int (stock c) / real_of_int (lp_quantity lp)\<rfloor> \<and>
         (0 \<le> stock c \<longleftrightarrow> 0 \<le> \<lfloor>real_of_int (stock c) / real_of_int (lp_quantity lp)\<rfloor>)"
proof -
  have c: "c = resolveComponent env lp"
    using assms(1-3) by (simp add: resolveComponents_nth)
  have s: "stock c = orZero (fetchedInventory env lp)"
    and m: "maxBundles c = floorDiv (orZero (fetchedInventory env lp)) (lp_quantity lp)"
    using resolveComponent_ok [OF assms(5)] c by simp_all
  have "maxBundles c = Num \<lfloor>real_of_int (stock c) / real_of_int (lp_quantity lp)\<rfloor>"
    using m s assms(4) by (simp add: floorDiv_floor)
  moreover have "0 \<le> stock c \<longleftrightarrow> 0 \<le> stock c div lp_quantity lp"
    using assms(4) by (simp add: pos_imp_zdiv_nonneg_iff)
  ultimately show ?thesis
    using s by (simp add: floor_divide_of_int_eq)
qed

text \<open>The variant component of the end-to-end example: stock 3, quantity 1, maxBundles 3.\<close>

theorem C1_maxBundles_floor_witness:
  "0 < lp_quantity ref21 \<and> \<not> detailFetchFails shop ref21 \<and>
   fetchedInventory shop ref21 = Some 3 \<and> \<bar>3::int\<bar> < 2 ^ 53 \<and>
   stock (resolveComponents shop [ref20, ref21] [] ! 1) = 3 \<and>
   maxBundles (resolveComponents shop [ref20, ref21] [] ! 1) = Num 3"
  using C1_maxBundles_floor [of 1 "[ref20, ref21]" ref21 shop
      "resolveComponents shop [ref20, ref21] [] ! 1"]
  by (simp add: shop_def ref21_def ref20_def detailFetchFails_def fetchedInventory_def
      truthy_def orZero_def isl_def)

text \<open>Claim C1 as stated fails: product 22 has the inventory level -3, the reference asks for
  2 of it, the fetch succeeds, and maxBundles is floor(-3 / 2) = -2.\<close>

theorem C1_negative_stock_counterexample:
  "0 < lp_quantity ref22 \<and> \<not> detailFetchFails shop ref22 \<and>
   fetchedInventory shop ref22 = Some (- 3) \<and> \<bar>- 3::int\<bar> < 2 ^ 53 \<and>
   maxBundles (resolveComponent shop ref22) = Num (- 2) \<and>
   maxBundles (resolveComponents shop [ref22] [] ! 0) = Num (- 2) \<and> \<not> (0::int) \<le> - 2"
  by (simp add: shop_def ref22_def detailFetchFails_def fetchedInventory_def truthy_def
      orZero_def resolveComponent_def fetchComponent_def floorDiv_def)




text \<open>
  Claim C3. When the detail fetch of the reference at position \<open>i\<close> of a linked list
  fails, the component at that position is the placeholder: name "Unknown Component", sku
  "N/A", stock 0, maxBundles 0, with the productId, variantId and quantity of the
  reference. The component list \<open>cs\<close> still has one component per reference, each
  resolved from its own reference alone, and the record of the bundle (a product or a
  variant) is appended to \<^verbatim>\<open>bundles\<close> with this list: the step does not raise.
\<close>

theorem C3_fetch_failure_placeholder:
  assumes "i < length raw"
    and "lp = parseLinkedProduct env (raw ! i)"
    and "detailFetchFails env lp"
    and "isBundle metafields"
    and "linkedField metafields = Some lf"
    and "json_parse env (mf_value lf) = Inr raw"
    and "cs = map (\<lambda>j. resolveComponent env (parseLinkedProduct env j)) raw"
  shows "cs ! i = placeholder (lp_productId lp) (lp_variantId lp) (lp_quantity lp) \<and>
         length cs = length raw \<and>
         (get_product_metafields env (p_id product) = Inr metafields \<longrightarrow>
            productBundle env product bundles =
              Inr (bundles @
                [\<lparr> bundle_id = p_id product, bundle_name = p_name product,
                   bundle_sku = p_sku product,
                   bundle_stock = orZero (p_inventory_level product),
                   components = cs \<rparr>])) \<and>
         (get_variant_metafields env (p_id product) (v_id variant) = Inr metafields \<longrightarrow>
            variantBundle env product variant bundles =
              Inr (bundles @
                [\<lparr> bundle_id = v_id variant,
                   bundle_name = p_name product @ '' - '' @ variantName (v_option_values variant),
                   bundle_sku = v_sku variant,
                   bundle_stock = orZero (v_inventory_level variant),
                   components = cs \<rparr>]))"
proof -
  have "cs ! i = errorComponent lp"
    using assms(1-3,7) by (simp add: resolveComponent_fails)
  then have "cs ! i = placeholder (lp_productId lp) (lp_variantId lp) (lp_quantity lp)"
    by (simp add: errorComponent_def placeholder_def)
  moreover have "length cs = length raw"
    using assms(7) by simp
  ultimately show ?thesis
    using assms(4-7) by (simp add: productBundle_linked variantBundle_linked)
qed

text \<open>Variant 30 of the sample catalog: the first of its five references names product 99,
  which cannot be fetched; the second is resolved as usual, and the request is answered
  200 with the record of the variant in second place.\<close>

theorem C3_fetch_failure_placeholder_witness:
  "detailFetchFails shop ref99 \<and>
   variantBundle shop P2 V30 [] =
     Inr [\<lparr> bundle_id = 30, bundle_name = ''P2 - Small'', bundle_sku = ''BDL-2-S'',
            bundle_stock = 4,
            components = map (resolveComponent shop) [ref99, ref20, ref22, refNeg, refZero] \<rparr>] \<and>
   map (resolveComponent shop) [ref99, ref20, ref22, refNeg, refZero] ! 0 =
     \<lparr> productId = 99, variantId = None, name = ''Unknown Component'', sku = ''N/A'',
       quantity = 4, stock = 0, maxBundles = Num 0 \<rparr> \<and>
   map (resolveComponent shop) [ref99, ref20, ref22, refNeg, refZero] ! 1 =
     \<lparr> productId = 20, variantId = None, name = ''Widget'', sku = ''W-20'',
       quantity = 2, stock = 10, maxBundles = Num 5 \<rparr> \<and>
   (\<exists>bs. handler shop ''GET'' = Some (Response 200 (Bundles bs)) \<and>
      bundle_id (bs ! 1) = 30 \<and>
      components (bs ! 1) = map (resolveComponent shop) [ref99, ref20, ref22, refNeg, refZero])"
proof -
  have fails: "detailFetchFails shop ref99"
    by (simp add: detailFetchFails_def shop_def ref99_def truthy_def)
  have mf: "get_variant_metafields shop (p_id P2) (v_id V30) = Inr [flag, linked ''L2'']"
    by (simp add: shop_def P2_def V30_def)
  have b: "isBundle [flag, linked ''L2'']"
    by (simp add: isBundle_def flag_def)
  have l: "linkedField [flag, linked ''L2''] = Some (linked ''L2'')"
    by (simp add: linkedField_def flag_def linked_def)
  have j: "json_parse shop (mf_value (linked ''L2'')) = Inr [ref99, ref20, ref22, refNeg, refZero]"
    by (simp add: shop_def linked_def)
  have p: "parseLinkedProduct shop = (\<lambda>j. j)"
    by (simp add: shop_def)
  have ok: "resolveComponent shop ref20 =
     \<lparr> productId = 20, variantId = None, name = ''Widget'', sku = ''W-20'',
       quantity = 2, stock = 10, maxBundles = Num 5 \<rparr>"
    by (simp add: resolveComponent_def fetchComponent_def shop_def ref20_def truthy_def
        orZero_def floorDiv_def)
  show ?thesis
    using C3_fetch_failure_placeholder [of 0 "[ref99, ref20, ref22, refNeg, refZero]" ref99 shop
        "[flag, linked ''L2'']" "linked ''L2''"
        "map (resolveComponent shop) [ref99, ref20, ref22, refNeg, refZero]" P2 "[]" V30]
      fails mf b l j ok
    by (simp add: p placeholder_def ref99_def P2_def V30_def variantName_def orZero_def
        shop_answer)
qed

text \<open>
  Claim C4. With a session and a category list: if no category is named "bundle" (in any
  letter case), the handler answers 200 with \<^verbatim>\<open>{bundles: []}\<close>. If there is one and each of
  its pages is empty, all reporting the same page count (or none), the fetcher returns the
  empty list and the handler answers 200 with \<^verbatim>\<open>{bundles: []}\<close>.
\<close>

theorem C4_no_products:
  assumes "getSession env = Inr (Some session)"
    and "get_categories env = Inr categories"
  shows "((\<forall>c \<in> set categories. \<not> isBundleCategory c) \<longrightarrow>
            handler env ''GET'' = Some (Response 200 (Bundles []))) \<and>
         (find isBundleCategory categories = Some bundleCategory \<and>
          (\<forall>p. 1 \<le> p \<and> p \<le> totalPages \<lparr> data = [], total_pages = reported \<rparr> \<longrightarrow>
             get_products_page env (cat_id bundleCategory) p =
               Inr \<lparr> data = [], total_pages = reported \<rparr>) \<longrightarrow>
            fetchPages env (cat_id bundleCategory) 1 [] [] =
              Some (Inr [], [1..<Suc (totalPages \<lparr> data = [], total_pages = reported \<rparr>)]) \<and>
            handler env ''GET'' = Some (Response 200 (Bundles [])))"
proof -
  let ?pg = "\<lambda>p::nat. \<lparr> data = [], total_pages = reported \<rparr>"
  let ?N = "totalPages (?pg 0)"
  have none: "handler env ''GET'' = Some (Response 200 (Bundles []))"
    if "\<forall>c \<in> set categories. \<not> isBundleCategory c"
  proof -
    from that have "find isBundleCategory categories = None"
      by (simp add: find_None_iff)
    then show ?thesis
      using assms by (simp add: handler_def tryBlock_def)
  qed
  have empty: "fetchPages env (cat_id bundleCategory) 1 [] [] = Some (Inr [], [1..<Suc ?N]) \<and>
      handler env ''GET'' = Some (Response 200 (Bundles []))"
    if found: "find isBundleCategory categories = Some bundleCategory"
      and pages: "\<forall>p. 1 \<le> p \<and> p \<le> ?N \<longrightarrow>
        get_products_page env (cat_id bundleCategory) p = Inr (?pg p)"
  proof -
    have "1 \<le> ?N"
      by (simp add: totalPages_def split: option.splits)
    then have "fetchPages env (cat_id bundleCategory) 1 [] [] =
        Some (Inr ([] @ concat (map (\<lambda>p. data (?pg p)) [1..<Suc ?N])), [] @ [1..<Suc ?N])"
      using pages by (intro fetchPages_run) simp_all
    then have run: "fetchPages env (cat_id bundleCategory) 1 [] [] = Some (Inr [], [1..<Suc ?N])"
      by simp
    show ?thesis
      using run handler_after_fetch [OF assms found run] by simp
  qed
  show ?thesis
    using none empty by blast
qed

text \<open>The sample service without a bundle category, and with an empty one that reports
  0 pages.\<close>

theorem C4_no_products_witness:
  "handler (shop\<lparr> get_categories := Inr [\<lparr> cat_id = 3, cat_name = Some ''Shoes'' \<rparr>,
                                           \<lparr> cat_id = 4, cat_name = None \<rparr>] \<rparr>) ''GET'' =
     Some (Response 200 (Bundles [])) \<and>
   fetchPages emptyShop 7 1 [] [] = Some (Inr [], [1]) \<and>
   handler emptyShop ''GET'' = Some (Response 200 (Bundles []))"
  using C4_no_products [of "shop\<lparr> get_categories := Inr [\<lparr> cat_id = 3, cat_name = Some ''Shoes'' \<rparr>,
                                           \<lparr> cat_id = 4, cat_name = None \<rparr>] \<rparr>" "()"
      "[\<lparr> cat_id = 3, cat_name = Some ''Shoes'' \<rparr>, \<lparr> cat_id = 4, cat_name = None \<rparr>]"]
    C4_no_products [of emptyShop "()"
      "[\<lparr> cat_id = 3, cat_name = Some ''Shoes'' \<rparr>, \<lparr> cat_id = 7, cat_name = Some ''Bundle'' \<rparr>]"
      "\<lparr> cat_id = 7, cat_name = Some ''Bundle'' \<rparr>" "Some 0"]
  by (simp add: shop_def emptyShop_def isBundleCategory_def toLowerCase_def lowerChar_def
      totalPages_def)

text \<open>
  Claim C5. When each of the pages 1 to \<open>N\<close> of the category is answered and reports
  \<^verbatim>\<open>total_pages\<close> = \<open>N\<close>, for a page count \<open>N\<close> of at least 1, the loop returns, having
  requested exactly the pages 1, 2, ..., \<open>N\<close> in this order, with the concatenation of
  the \<open>N\<close> pages' data in page order; and this list is the one the handler then scans.
\<close>

theorem C5_pagination:
  assumes "0 < N"
    and "\<forall>p. 1 \<le> p \<and> p \<le> N \<longrightarrow>
           get_products_page env cid p = Inr \<lparr> data = pages p, total_pages = Some N \<rparr>"
  shows "fetchPages env cid 1 [] [] = Some (Inr (concat (map pages [1..<Suc N])), [1..<Suc N]) \<and>
         (getSession env = Inr (Some session) \<and> get_categories env = Inr categories \<and>
          find isBundleCategory categories = Some bundleCategory \<and> cat_id bundleCategory = cid \<longrightarrow>
            handler env ''GET'' =
              Some (case processProducts env (concat (map pages [1..<Suc N])) [] of
                      Inl e \<Rightarrow> Response 500 (Message ''Error fetching bundle stock'')
                    | Inr bundles \<Rightarrow> Response 200 (Bundles bundles)))"
proof -
  let ?pg = "\<lambda>p. \<lparr> data = pages p, total_pages = Some N \<rparr>"
  have total: "totalPages (?pg p) = N" for p
    using assms(1) by (simp add: totalPages_def)
  have "fetchPages env cid 1 [] [] =
          Some (Inr ([] @ concat (map (\<lambda>p. data (?pg p)) [1..<Suc N])), [] @ [1..<Suc N])"
    using assms by (intro fetchPages_run) (simp_all add: total)
  then have run: "fetchPages env cid 1 [] [] =
      Some (Inr (concat (map pages [1..<Suc N])), [1..<Suc N])"
    by simp
  then show ?thesis
    by (auto simp: handler_after_fetch)
qed

text \<open>The sample category has three pages of one product each.\<close>

theorem C5_pagination_witness:
  "fetchPages shop 7 1 [] [] = Some (Inr [P1, P2, P3], [1, 2, 3]) \<and>
   handler shop ''GET'' =
     Some (case processProducts shop [P1, P2, P3] [] of
             Inl e \<Rightarrow> Response 500 (Message ''Error fetching bundle stock'')
           | Inr bundles \<Rightarrow> Response 200 (Bundles bundles))"
proof -
  have session: "getSession shop = Inr (Some ())"
    and categories: "get_categories shop =
      Inr [\<lparr> cat_id = 3, cat_name = Some ''Shoes'' \<rparr>, \<lparr> cat_id = 7, cat_name = Some ''Bundle'' \<rparr>]"
    by (simp_all add: shop_def)
  have found: "find isBundleCategory
      [\<lparr> cat_id = 3, cat_name = Some ''Shoes'' \<rparr>, \<lparr> cat_id = 7, cat_name = Some ''Bundle'' \<rparr>] =
      Some \<lparr> cat_id = 7, cat_name = Some ''Bundle'' \<rparr>"
    by (simp add: isBundleCategory_def toLowerCase_def lowerChar_def)
  have "\<forall>p. 1 \<le> p \<and> p \<le> 3 \<longrightarrow>
      get_products_page shop 7 p =
        Inr \<lparr> data = (\<lambda>p. if p = 1 then [P1] else if p = 2 then [P2] else [P3]) p,
              total_pages = Some 3 \<rparr>"
  proof (intro allI impI)
    fix p :: nat assume "1 \<le> p \<and> p \<le> 3"
    then have "p = 1 \<or> p = 2 \<or> p = 3" by arith
    then show "get_products_page shop 7 p =
        Inr \<lparr> data = (\<lambda>p. if p = 1 then [P1] else if p = 2 then [P2] else [P3]) p,
              total_pages = Some 3 \<rparr>"
      by (auto simp: shop_def)
  qed
  then show ?thesis
    using C5_pagination [of 3 shop 7 "\<lambda>p. if p = 1 then [P1] else if p = 2 then [P2] else [P3]"
        "()" "[\<lparr> cat_id = 3, cat_name = Some ''Shoes'' \<rparr>, \<lparr> cat_id = 7, cat_name = Some ''Bundle'' \<rparr>]"
        "\<lparr> cat_id = 7, cat_name = Some ''Bundle'' \<rparr>"]
      session categories found
    by (simp add: upt_rec)
qed

text \<open>
  Claim C6. When no metafield fetch and no parse of a linked list fails, the scan of the
  product list returns the records in catalog order: product by product, the product's own
  record first when it has one, then the records of its variants in the order of the
  variant list. When the product list is the one the pagination loop fetched (the pages
  in page order), this is the list of the handler's 200 response. Each part is what the
  step adds by itself, at most one record carrying the id of its product or variant, so
  nothing is dropped as a duplicate and nothing is reordered.
\<close>

theorem C6_catalog_order:
  assumes "\<forall>p \<in> set products. \<not> productFails env p"
  shows "processProducts env products [] =
           Inr (concat (map (\<lambda>product. productRecords env product @
                               concat (map (variantRecords env product) (variantsOf product)))
                         products)) \<and>
         (getSession env = Inr (Some session) \<and> get_categories env = Inr categories \<and>
          find isBundleCategory categories = Some bundleCategory \<and>
          fetchPages env (cat_id bundleCategory) 1 [] [] = Some (Inr products, requested) \<longrightarrow>
            handler env ''GET'' =
              Some (Response 200 (Bundles
                (concat (map (\<lambda>product. productRecords env product @
                                concat (map (variantRecords env product) (variantsOf product)))
                          products))))) \<and>
         (\<forall>product \<in> set products.
            length (productRecords env product) \<le> 1 \<and>
            (\<forall>r \<in> set (productRecords env product). bundle_id r = p_id product) \<and>
            (\<forall>variant \<in> set (variantsOf product).
               length (variantRecords env product variant) \<le> 1 \<and>
               (\<forall>r \<in> set (variantRecords env product variant). bundle_id r = v_id variant)))"
proof -
  have "processProducts env products [] = Inr ([] @ catalogOrder env products)"
    using assms by (rule processProducts_ok)
  then have scan: "processProducts env products [] =
      Inr (concat (map (\<lambda>product. productRecords env product @
                          concat (map (variantRecords env product) (variantsOf product)))
                    products))"
    by (simp add: catalogOrder_def)
  have "handler env ''GET'' =
      Some (Response 200 (Bundles
        (concat (map (\<lambda>product. productRecords env product @
                        concat (map (variantRecords env product) (variantsOf product)))
                  products))))"
    if "getSession env = Inr (Some session)" and "get_categories env = Inr categories"
      and "find isBundleCategory categories = Some bundleCategory"
      and "fetchPages env (cat_id bundleCategory) 1 [] [] = Some (Inr products, requested)"
    using handler_after_fetch [OF that] scan by simp
  then show ?thesis
    using scan productRecords_shape [of env] variantRecords_shape [of env] by blast
qed

text \<open>A category with the sample products 12, 11, 10 and 10 again: the names come out
  unsorted and the record of product 10 twice.\<close>

theorem C6_catalog_order_witness:
  "\<not> productFails (onePage [P3, P2, P1, P1]) P3 \<and>
   \<not> productFails (onePage [P3, P2, P1, P1]) P2 \<and>
   \<not> productFails (onePage [P3, P2, P1, P1]) P1 \<and>
   (\<exists>bs. handler (onePage [P3, P2, P1, P1]) ''GET'' = Some (Response 200 (Bundles bs)) \<and>
      map bundle_id bs = [12, 30, 10, 10] \<and>
      map bundle_name bs = [''A pack'', ''P2 - Small'', ''P1'', ''P1''])"
proof -
  let ?env = "onePage [P3, P2, P1, P1]"
  let ?cats = "[\<lparr> cat_id = 3, cat_name = Some ''Shoes'' \<rparr>, \<lparr> cat_id = 7, cat_name = Some ''Bundle'' \<rparr>]"
  let ?cat = "\<lparr> cat_id = 7, cat_name = Some ''Bundle'' \<rparr>"
  have session: "getSession ?env = Inr (Some ())" and categories: "get_categories ?env = Inr ?cats"
    by (simp_all add: onePage_def shop_def)
  have found: "find isBundleCategory ?cats = Some ?cat"
    by (simp add: isBundleCategory_def toLowerCase_def lowerChar_def)
  have fetched: "fetchPages ?env (cat_id ?cat) 1 [] [] = Some (Inr [P3, P2, P1, P1], [1])"
    by (simp add: fetchPages.simps onePage_def totalPages_def)
  have vs: "variantsOf P1 = []" "variantsOf P2 = [V30, V31]" "variantsOf P3 = []"
    by (simp_all add: variantsOf_def P1_def P2_def P3_def)
  have ids: "p_id P1 = 10" "p_id P2 = 11" "p_id P3 = 12" "v_id V30 = 30" "v_id V31 = 31"
    by (simp_all add: P1_def P2_def P3_def V30_def V31_def)
  have products: "\<not> entityFails ?env (get_product_metafields ?env 10)"
    "\<not> entityFails ?env (get_product_metafields ?env 11)"
    "\<not> entityFails ?env (get_product_metafields ?env 12)"
    by (simp_all add: entityFails_def linkedListFails_def isBundle_def linkedField_def
        onePage_def shop_def flag_def linked_def)
  have variants: "\<not> entityFails ?env (get_variant_metafields ?env 11 30)"
    "\<not> entityFails ?env (get_variant_metafields ?env 11 31)"
    by (simp_all add: entityFails_def linkedListFails_def isBundle_def linkedField_def
        onePage_def shop_def flag_def linked_def)
  have ok: "\<forall>p \<in> set [P3, P2, P1, P1]. \<not> productFails ?env p"
    by (simp add: productFails_def vs ids products variants)
  have p1: "productRecords ?env P1 =
      [\<lparr> bundle_id = 10, bundle_name = ''P1'', bundle_sku = ''BDL-1'', bundle_stock = 5,
         components = map (resolveComponent ?env) [ref20, ref21] \<rparr>]"
    by (simp add: productRecords_def productBundle_def onePage_def shop_def P1_def isBundle_def
        linkedField_def flag_def linked_def orZero_def)
  have p2: "productRecords ?env P2 = []"
    by (simp add: productRecords_def productBundle_def onePage_def shop_def P2_def isBundle_def
        linkedField_def flag_def linked_def)
  have p3: "productRecords ?env P3 =
      [\<lparr> bundle_id = 12, bundle_name = ''A pack'', bundle_sku = ''AAA'', bundle_stock = 1,
         components = map (resolveComponent ?env) [ref20, ref21] \<rparr>]"
    by (simp add: productRecords_def productBundle_def onePage_def shop_def P3_def isBundle_def
        linkedField_def flag_def linked_def orZero_def)
  have v30: "variantRecords ?env P2 V30 =
      [\<lparr> bundle_id = 30, bundle_name = ''P2 - Small'', bundle_sku = ''BDL-2-S'', bundle_stock = 4,
         components = map (resolveComponent ?env) [ref99, ref20, ref22, refNeg, refZero] \<rparr>]"
    by (simp add: variantRecords_def variantBundle_def onePage_def shop_def P2_def V30_def
        isBundle_def linkedField_def flag_def linked_def orZero_def variantName_def)
  have v31: "variantRecords ?env P2 V31 = []"
    by (simp add: variantRecords_def variantBundle_def onePage_def shop_def P2_def V31_def
        isBundle_def linkedField_def flag_def linked_def)
  show ?thesis
    using C6_catalog_order [of "[P3, P2, P1, P1]" ?env "()" ?cats ?cat "[1]"] ok
      session categories found fetched
    by (simp add: p1 p2 p3 v30 v31 vs)
qed

text \<open>
  Claim C7. With a session, the handler answers 500 with the message "Error fetching bundle
  stock", and so with no bundle list, in each of these cases: the category list cannot be
  fetched; the pagination loop reaches a page \<open>K\<close> whose request is rejected; the products
  are fetched and, for one of them or one of its variants, the metafield fetch is rejected
  or the linked list of a bundle-flagged one does not parse (\<open>productFails\<close>).
\<close>

theorem C7_fatal_failures:
  assumes "getSession env = Inr (Some session)"
  shows "(get_categories env = Inl e \<longrightarrow>
            handler env ''GET'' = Some (Response 500 (Message ''Error fetching bundle stock''))) \<and>
         (get_categories env = Inr categories \<and>
          find isBundleCategory categories = Some bundleCategory \<and>
          1 \<le> K \<and>
          (\<forall>p. 1 \<le> p \<and> p < K \<longrightarrow>
             (\<exists>r. get_products_page env (cat_id bundleCategory) p = Inr r \<and> p < totalPages r)) \<and>
          get_products_page env (cat_id bundleCategory) K = Inl e \<longrightarrow>
            handler env ''GET'' = Some (Response 500 (Message ''Error fetching bundle stock''))) \<and>
         (get_categories env = Inr categories \<and>
          find isBundleCategory categories = Some bundleCategory \<and>
          fetchPages env (cat_id bundleCategory) 1 [] [] = Some (Inr products, requested) \<and>
          (\<exists>p \<in> set products. productFails env p) \<longrightarrow>
            handler env ''GET'' = Some (Response 500 (Message ''Error fetching bundle stock'')))"
proof (intro conjI impI)
  assume "get_categories env = Inl e"
  then show "handler env ''GET'' = Some (Response 500 (Message ''Error fetching bundle stock''))"
    using assms by (simp add: handler_def tryBlock_def)
next
  assume a: "get_categories env = Inr categories \<and>
          find isBundleCategory categories = Some bundleCategory \<and>
          1 \<le> K \<and>
          (\<forall>p. 1 \<le> p \<and> p < K \<longrightarrow>
             (\<exists>r. get_products_page env (cat_id bundleCategory) p = Inr r \<and> p < totalPages r)) \<and>
          get_products_page env (cat_id bundleCategory) K = Inl e"
  then obtain req' where
    "fetchPages env (cat_id bundleCategory) 1 [] [] = Some (Inl e, req')"
    using fetchPages_fail [of 1 K env "cat_id bundleCategory" e "[]" "[]"] by blast
  then show "handler env ''GET'' = Some (Response 500 (Message ''Error fetching bundle stock''))"
    using assms a by (simp add: handler_fetch_fails)
next
  assume a: "get_categories env = Inr categories \<and>
          find isBundleCategory categories = Some bundleCategory \<and>
          fetchPages env (cat_id bundleCategory) 1 [] [] = Some (Inr products, requested) \<and>
          (\<exists>p \<in> set products. productFails env p)"
  then have "isl (processProducts env products [])"
    by (simp add: processProducts_fail)
  then obtain e' where "processProducts env products [] = Inl e'"
    by (auto simp: isl_def)
  then show "handler env ''GET'' = Some (Response 500 (Message ''Error fetching bundle stock''))"
    using assms a handler_after_fetch [of env session categories bundleCategory products requested]
    by simp
qed

text \<open>The four cases on the sample service: no category list; a rejected second page; a
  product whose metafields cannot be fetched (13); a linked list that is not JSON (14).\<close>

theorem C7_fatal_failures_witness:
  "handler noCategories ''GET'' = Some (Response 500 (Message ''Error fetching bundle stock'')) \<and>
   handler brokenPages ''GET'' = Some (Response 500 (Message ''Error fetching bundle stock'')) \<and>
   productFails (onePage [P1, P4]) P4 \<and>
   handler (onePage [P1, P4]) ''GET'' =
     Some (Response 500 (Message ''Error fetching bundle stock'')) \<and>
   productFails (onePage [P5, P1]) P5 \<and>
   handler (onePage [P5, P1]) ''GET'' =
     Some (Response 500 (Message ''Error fetching bundle stock''))"
proof -
  let ?cats = "[\<lparr> cat_id = 3, cat_name = Some ''Shoes'' \<rparr>, \<lparr> cat_id = 7, cat_name = Some ''Bundle'' \<rparr>]"
  let ?cat = "\<lparr> cat_id = 7, cat_name = Some ''Bundle'' \<rparr>"
  have found: "find isBundleCategory ?cats = Some ?cat"
    by (simp add: isBundleCategory_def toLowerCase_def lowerChar_def)
  have a: "handler noCategories ''GET'' =
      Some (Response 500 (Message ''Error fetching bundle stock''))"
    using C7_fatal_failures [of noCategories "()" FetchError]
    by (simp add: noCategories_def shop_def)
  have first: "\<forall>p. 1 \<le> p \<and> p < 2 \<longrightarrow>
      (\<exists>r. get_products_page brokenPages (cat_id ?cat) p = Inr r \<and> p < totalPages r)"
  proof (intro allI impI)
    fix p :: nat assume "1 \<le> p \<and> p < 2"
    then have "p = 1" by arith
    then show "\<exists>r. get_products_page brokenPages (cat_id ?cat) p = Inr r \<and> p < totalPages r"
      by (simp add: brokenPages_def totalPages_def)
  qed
  have b: "handler brokenPages ''GET'' =
      Some (Response 500 (Message ''Error fetching bundle stock''))"
    using C7_fatal_failures [of brokenPages "()" FetchError ?cats ?cat 2] found first
    by (simp add: brokenPages_def shop_def)
  have c1: "productFails (onePage [P1, P4]) P4"
    by (simp add: productFails_def entityFails_def onePage_def shop_def P4_def)
  have c2: "fetchPages (onePage [P1, P4]) (cat_id ?cat) 1 [] [] = Some (Inr [P1, P4], [1])"
    by (simp add: fetchPages.simps onePage_def totalPages_def)
  have c: "handler (onePage [P1, P4]) ''GET'' =
      Some (Response 500 (Message ''Error fetching bundle stock''))"
    using C7_fatal_failures [of "onePage [P1, P4]" "()" FetchError ?cats ?cat 1 "[P1, P4]" "[1]"]
      found c1 c2
    by (simp add: onePage_def shop_def)
  have d1: "productFails (onePage [P5, P1]) P5"
    by (simp add: productFails_def entityFails_def linkedListFails_def isBundle_def
        linkedField_def flag_def linked_def onePage_def shop_def P5_def)
  have d2: "fetchPages (onePage [P5, P1]) (cat_id ?cat) 1 [] [] = Some (Inr [P5, P1], [1])"
    by (simp add: fetchPages.simps onePage_def totalPages_def)
  have d: "handler (onePage [P5, P1]) ''GET'' =
      Some (Response 500 (Message ''Error fetching bundle stock''))"
    using C7_fatal_failures [of "onePage [P5, P1]" "()" FetchError ?cats ?cat 1 "[P5, P1]" "[1]"]
      found d1 d2
    by (simp add: onePage_def shop_def)
  show ?thesis
    using a b c c1 d d1 by simp
qed

text \<open>
  Claim C8. For every bundle the threshold \<^verbatim>\<open>minMaxBundles\<close> is the least maxBundles of its
  components, and 0 when it has none. An expanded bundle gets one row per component after
  its own row, in order, and the row of a component is marked limiting exactly when the
  component's maxBundles equals that least value; a collapsed bundle gets its own row only.
  The rows of every bundle that passes the search filter are in the table.
\<close>

theorem C8_limiting_components:
  "minMaxBundles bundle =
     Num (if components bundle = [] then 0
          else Min (set (map maxBundles (components bundle)))) \<and>
   length (itemsOfBundle bundle) =
     (if expanded bundle then Suc (length (components bundle)) else 1) \<and>
   (expanded bundle \<and> i < length (components bundle) \<longrightarrow>
      itemsOfBundle bundle ! Suc i = componentItem bundle i (components bundle ! i) \<and>
      item_maxBundles (itemsOfBundle bundle ! Suc i) = Some (maxBundles (components bundle ! i)) \<and>
      isLimiting (itemsOfBundle bundle ! Suc i) =
        Some (maxBundles (components bundle ! i) =
                Min (set (map maxBundles (components bundle))))) \<and>
   (bundle \<in> set bundles \<and> matchesQuery searchQuery bundle \<longrightarrow>
      set (itemsOfBundle bundle) \<subseteq> set (getTableItems bundles searchQuery))"
proof -
  have shown: "set (itemsOfBundle bundle) \<subseteq> set (getTableItems bundles searchQuery)"
    if "bundle \<in> set bundles" and "matchesQuery searchQuery bundle"
    using that by (auto simp: getTableItems_def)
  have row: "itemsOfBundle bundle ! Suc i = componentItem bundle i (components bundle ! i)"
    if "expanded bundle" and "i < length (components bundle)"
    using that by (simp add: itemsOfBundle_def nth_enumerate_eq)
  have "components bundle \<noteq> []" if "i < length (components bundle)"
    using that by auto
  then have limiting: "isLimiting (componentItem bundle i (components bundle ! i)) =
      Some (maxBundles (components bundle ! i) = Min (set (map maxBundles (components bundle))))"
    if "i < length (components bundle)"
    using that by (simp add: componentItem_def minMaxBundles_Min)
  have len: "length (itemsOfBundle bundle) =
      (if expanded bundle then Suc (length (components bundle)) else 1)"
    by (simp add: itemsOfBundle_def)
  note least = minMaxBundles_Min [of "bundle"]
  show ?thesis
    using row limiting len least shown by (simp add: componentItem_def)
qed

text \<open>A bundle with the maxBundles 5, 3 and 3: the threshold is 3 and the last two rows are
  limiting. A bundle without components: the threshold is 0.\<close>

theorem C8_limiting_components_witness:
  "minMaxBundles bundleA = Num 3 \<and>
   minMaxBundles bundleB = Num 0 \<and>
   expanded bundleA \<and>
   length (itemsOfBundle bundleA) = 4 \<and>
   isLimiting (itemsOfBundle bundleA ! Suc 0) = Some False \<and>
   isLimiting (itemsOfBundle bundleA ! Suc 1) = Some True \<and>
   isLimiting (itemsOfBundle bundleA ! Suc 2) = Some True"
proof -
  have comps: "components bundleA = [comp 20 2 10, comp 21 1 3, comp 23 2 7]"
    "components bundleB = []"
    by (simp_all add: bundleA_def bundleB_def)
  have e: "expanded bundleA"
    by (simp add: expanded_def bundleA_def)
  have limiting: "isLimiting (itemsOfBundle bundleA ! Suc i) =
      Some (maxBundles ([comp 20 2 10, comp 21 1 3, comp 23 2 7] ! i) = 3)"
    if "i < 3" for i
  proof -
    from C8_limiting_components [of bundleA i]
    have "expanded bundleA \<and> i < length (components bundleA) \<longrightarrow>
        isLimiting (itemsOfBundle bundleA ! Suc i) =
          Some (maxBundles (components bundleA ! i) =
                  Min (set (map maxBundles (components bundleA))))"
      by blast
    then show ?thesis
      using that e by (simp add: comps comp_def)
  qed
  from C8_limiting_components [of bundleA 0]
  have "minMaxBundles bundleA =
      Num (if components bundleA = [] then 0
           else Min (set (map maxBundles (components bundleA)))) \<and>
    length (itemsOfBundle bundleA) =
      (if expanded bundleA then Suc (length (components bundleA)) else 1)"
    by blast
  then have a: "minMaxBundles bundleA = Num 3" "length (itemsOfBundle bundleA) = 4"
    using e by (simp_all add: comps comp_def)
  from C8_limiting_components [of bundleB 0]
  have "minMaxBundles bundleB =
      Num (if components bundleB = [] then 0
           else Min (set (map maxBundles (components bundleB))))"
    by blast
  then have b: "minMaxBundles bundleB = Num 0"
    by (simp add: comps)
  have "isLimiting (itemsOfBundle bundleA ! Suc 0) = Some False"
    "isLimiting (itemsOfBundle bundleA ! Suc 1) = Some True"
    "isLimiting (itemsOfBundle bundleA ! Suc 2) = Some True"
    using limiting [of 0] limiting [of 1] limiting [of 2] by (simp_all add: comp_def)
  then show ?thesis
    using a b e by simp
qed

text \<open>
  Claim C9. A product or variant whose metafields have no \<^verbatim>\<open>linked_product_ids\<close> entry in
  the namespace \<^verbatim>\<open>bundle\<close> adds no record: \<^verbatim>\<open>bundles\<close> is unchanged and nothing is
  raised, whatever its \<^verbatim>\<open>is_bundle\<close> entry says, so also when that entry is "true".
\<close>

theorem C9_flag_without_list:
  assumes "linkedField metafields = None"
  shows "(get_product_metafields env (p_id product) = Inr metafields \<longrightarrow>
            productBundle env product bundles = Inr bundles) \<and>
         (get_variant_metafields env (p_id product) (v_id variant) = Inr metafields \<longrightarrow>
            variantBundle env product variant bundles = Inr bundles)"
  using assms by (simp add: productBundle_def variantBundle_def)

text \<open>Product 11 and its variant 31 are flagged and have no list.\<close>

theorem C9_flag_without_list_witness:
  "isBundle [flag] \<and> linkedField [flag] = None \<and>
   productBundle shop P2 [] = Inr [] \<and> variantBundle shop P2 V31 [] = Inr []"
  using C9_flag_without_list [of "[flag]" shop P2 "[]" V31]
  by (simp add: isBundle_def linkedField_def flag_def shop_def P2_def V31_def)

text \<open>
  Claim C10. Toggling keeps the length and the order of the list. At every position, a
  bundle whose id is not the given one is unchanged; a bundle whose id is the given one
  has its \<^verbatim>\<open>isExpanded\<close> flag negated (an absent flag counts as false) and keeps its id,
  name, sku, stock and components.
\<close>

theorem C10_toggle_frame:
  "length (toggleExpand bundleId prev) = length prev \<and>
   (\<forall>i < length prev.
      (bundle_id (prev ! i) = bundleId \<longrightarrow>
         toggleExpand bundleId prev ! i = (prev ! i)\<lparr>isExpanded := Some (\<not> expanded (prev ! i))\<rparr>) \<and>
      (bundle_id (prev ! i) \<noteq> bundleId \<longrightarrow> toggleExpand bundleId prev ! i = prev ! i) \<and>
      expanded (toggleExpand bundleId prev ! i) =
        (if bundle_id (prev ! i) = bundleId then \<not> expanded (prev ! i) else expanded (prev ! i)) \<and>
      bundle_id (toggleExpand bundleId prev ! i) = bundle_id (prev ! i) \<and>
      bundle_name (toggleExpand bundleId prev ! i) = bundle_name (prev ! i) \<and>
      bundle_sku (toggleExpand bundleId prev ! i) = bundle_sku (prev ! i) \<and>
      bundle_stock (toggleExpand bundleId prev ! i) = bundle_stock (prev ! i) \<and>
      components (toggleExpand bundleId prev ! i) = components (prev ! i))"
  by (simp add: toggleExpand_def expanded_def)

text \<open>Toggling the id 30 changes the second sample bundle only; the id 10 is shared by the
  first and the third, and both are toggled.\<close>

theorem C10_toggle_frame_witness:
  "map expanded pageBundles = [True, False, False] \<and>
   toggleExpand 30 pageBundles = [bundleA, bundleB\<lparr>isExpanded := Some True\<rparr>, bundleC] \<and>
   toggleExpand 10 pageBundles =
     [bundleA\<lparr>isExpanded := Some False\<rparr>, bundleB, bundleC\<lparr>isExpanded := Some True\<rparr>]"
proof -
  have ids: "bundle_id bundleA = 10" "bundle_id bundleB = 30" "bundle_id bundleC = 10"
    and e: "expanded bundleA" "\<not> expanded bundleB" "\<not> expanded bundleC"
    by (simp_all add: expanded_def bundleA_def bundleB_def bundleC_def)
  have len: "length pageBundles = 3"
    and nth: "pageBundles ! 0 = bundleA" "pageBundles ! 1 = bundleB" "pageBundles ! 2 = bundleC"
    by (simp_all add: pageBundles_def)
  have "toggleExpand 30 pageBundles = [bundleA, bundleB\<lparr>isExpanded := Some True\<rparr>, bundleC]"
  proof (rule nth_equalityI)
    show "length (toggleExpand 30 pageBundles) =
        length [bundleA, bundleB\<lparr>isExpanded := Some True\<rparr>, bundleC]"
      using C10_toggle_frame [of 30 pageBundles] len by simp
  next
    fix i assume "i < length (toggleExpand 30 pageBundles)"
    then have i: "i < length pageBundles"
      using C10_toggle_frame [of 30 pageBundles] by simp
    then have "i = 0 \<or> i = 1 \<or> i = 2"
      using len by arith
    then show "toggleExpand 30 pageBundles ! i =
        [bundleA, bundleB\<lparr>isExpanded := Some True\<rparr>, bundleC] ! i"
      using C10_toggle_frame [of 30 pageBundles] i ids e nth by auto
  qed
  moreover have "toggleExpand 10 pageBundles =
     [bundleA\<lparr>isExpanded := Some False\<rparr>, bundleB, bundleC\<lparr>isExpanded := Some True\<rparr>]"
    using ids e by (simp add: toggleExpand_def pageBundles_def)
  moreover have "map expanded pageBundles = [True, False, False]"
    using e by (simp add: pageBundles_def)
  ultimately show ?thesis
    by simp
qed

end
